theory Spec2Isabelle
  imports Complex_Main "HOL-Library.Word"
begin

section \<open>Query composer: the condition builder of \<open>Query.ts\<close>\<close>

text \<open>
  A thrown JavaScript \<open>Error\<close> is a value carrying its message.
\<close>

datatype error = Error string

datatype Conjunction = WHERE | AND | OR

text \<open>
  The condition tree of the source has the TypeScript type
  \<open>[string, ...[Conjunction, string][]] | null\<close>: a first condition followed by
  conjunction-tagged conditions, or \<open>null\<close>. The accumulator shared by the closures
  of one statement is the pair of the bind-parameter array and that tree.
\<close>

type_synonym conditions = "(string \<times> (Conjunction \<times> string) list) option"

record 'v builder =
  params :: "'v list"
  conditions :: conditions

text \<open>Decimal rendering of a number inside a template literal.\<close>

function show_nat :: "nat \<Rightarrow> string" where
  "show_nat n =
     (if n < 10 then [''0123456789'' ! n]
      else show_nat (n div 10) @ [''0123456789'' ! (n mod 10)])"
  by pat_completeness auto
termination
  by (relation "measure (\<lambda>n. n)") auto

declare show_nat.simps [simp del]

text \<open>
  \<open>createCondition\<close>: the condition text is built first from the column, the
  comparator and \<open>params.length + 1\<close>; the two misuse checks throw before anything
  is pushed; otherwise the condition is stored and the compare value pushed. The
  returned \<open>and\<close>/\<open>or\<close> closures capture the updated arrays, which the model
  returns as the new accumulator.
\<close>

definition createCondition ::
  "string \<Rightarrow> Conjunction \<Rightarrow> 'v list \<Rightarrow> conditions \<Rightarrow> string \<Rightarrow> 'v \<Rightarrow> error + 'v builder" where
  "createCondition column conjunction ps conds comparator compareValue =
     (let condition = column @ '' '' @ comparator @ '' $'' @ show_nat (length ps + 1) in
      if conjunction = WHERE then
        (case conds of
           Some t \<Rightarrow> Inl (Error ''WHERE should not be called multiple times in one query'')
         | None \<Rightarrow> Inr \<lparr>params = ps @ [compareValue], conditions = Some (condition, [])\<rparr>)
      else
        (case conds of
           None \<Rightarrow>
             Inl (Error ''AND or OR called without a preexisting WHERE; this shouldn't happen.'')
         | Some (c0, cs) \<Rightarrow>
             Inr \<lparr>params = ps @ [compareValue],
                  conditions = Some (c0, cs @ [(conjunction, condition)])\<rparr>))"

text \<open>
  \<open>createConditions\<close> returns the object of the seven comparator methods, each a
  call of \<open>createCondition\<close> with its comparator text.
\<close>

record 'v WhereConditions =
  eq :: "'v \<Rightarrow> error + 'v builder"
  neq :: "'v \<Rightarrow> error + 'v builder"
  lt :: "'v \<Rightarrow> error + 'v builder"
  lte :: "'v \<Rightarrow> error + 'v builder"
  gt :: "'v \<Rightarrow> error + 'v builder"
  gte :: "'v \<Rightarrow> error + 'v builder"
  in' :: "'v \<Rightarrow> error + 'v builder"

definition createConditions ::
  "string \<Rightarrow> Conjunction \<Rightarrow> 'v list \<Rightarrow> conditions \<Rightarrow> 'v WhereConditions" where
  "createConditions column conjunction ps conds =
     (let createComparatorCondition =
            (\<lambda>comparator compareValue.
               createCondition column conjunction ps conds comparator compareValue)
      in \<lparr>eq = createComparatorCondition ''='',
          neq = createComparatorCondition ''<>'',
          lt = createComparatorCondition ''<'',
          lte = createComparatorCondition ''<='',
          gt = createComparatorCondition ''>'',
          gte = createComparatorCondition ''>='',
          in' = createComparatorCondition ''IN''\<rparr>)"

text \<open>
  The combinator returned by a successful comparator call: \<open>and(column)\<close> and
  \<open>or(column)\<close> on the accumulator it closed over.
\<close>

definition and' :: "'v builder \<Rightarrow> string \<Rightarrow> 'v WhereConditions" where
  "and' b column = createConditions column AND (params b) (conditions b)"

definition or' :: "'v builder \<Rightarrow> string \<Rightarrow> 'v WhereConditions" where
  "or' b column = createConditions column OR (params b) (conditions b)"

text \<open>
  The entry point of a statement factory (as in the update factory):
  \<open>where(column)\<close> on the factory's own parameter array and condition tree.
\<close>

definition where' :: "'v list \<Rightarrow> conditions \<Rightarrow> string \<Rightarrow> 'v WhereConditions" where
  "where' ps conds column = createConditions column WHERE ps conds"




section \<open>Repository: value coercion and result formatting\<close>

type_synonym bytes = "8 word list"

text \<open>
  Modelled from the spec: the type \<open>Primitive\<close> of \<open>lib/utility-types\<close>, whose
  declaration is not among the sources. The spec lists the host primitive values as
  boolean, undefined/null, symbol-like tokens, string and number; these are also
  the cases of the \<open>typeof\<close> switch in \<open>coerceParams\<close>. A symbol is given by its
  description, a number by its value.
\<close>

datatype Primitive =
  Boolean bool | Symbol string | Undefined | String string | Number real | Null

text \<open>
  \<open>coerceParams\<close>: the \<open>typeof\<close> switch, mapped over the parameters.
  \<open>Number(true)\<close> is 1 and \<open>Number(false)\<close> is 0; the \<open>toString\<close> of a symbol
  with description \<open>d\<close> is \<open>Symbol(d)\<close>.
\<close>

definition coerceParams :: "Primitive list \<Rightarrow> Primitive list" where
  "coerceParams ps =
     map (\<lambda>param.
            case param of
              Boolean b \<Rightarrow> Number (if b then 1 else 0)
            | Symbol d \<Rightarrow> String (''Symbol('' @ d @ '')'')
            | Undefined \<Rightarrow> Null
            | String s \<Rightarrow> param
            | Number n \<Rightarrow> param
            | Null \<Rightarrow> param) ps"

text \<open>
  One result of the engine's \<open>exec\<close>: the column names and the rows of cells.
\<close>

record 'c QueryExecResult =
  columns :: "string list"
  values' :: "'c list list"

text \<open>
  The computed key \<open>[columns[i]]\<close>: an index past the end of \<open>columns\<close> reads
  \<open>undefined\<close>, which as a property key is the string \<open>undefined\<close>.
\<close>

definition column_key :: "string list \<Rightarrow> nat \<Rightarrow> string" where
  "column_key cols i = (if i < length cols then cols ! i else ''undefined'')"

text \<open>
  \<open>Object.assign(acc, {[key]: cell})\<close> assigns the one property of its source to
  \<open>acc\<close> by ordinary assignment. The row object starts as \<open>{}\<close> and inherits
  from \<open>Object.prototype\<close>, where \<open>__proto__\<close> is an accessor and every other
  property is a writable value: assigning to \<open>__proto__\<close> runs the inherited
  setter and gives the row object no own property, and assigning to any other key
  creates or overwrites an own property. A row object is the map of its own
  properties. (The setter ignores a number or a string. Given \<open>null\<close> or an
  object it replaces the prototype of the row object, which leaves the own
  properties as they are; assignments made after such a replacement are not
  followed further here.)
\<close>

definition Object_assign :: "(string \<rightharpoonup> 'c) \<Rightarrow> string \<Rightarrow> 'c \<Rightarrow> (string \<rightharpoonup> 'c)" where
  "Object_assign acc key cell = (if key = ''__proto__'' then acc else acc(key \<mapsto> cell))"

text \<open>
  \<open>formatResult\<close>: each row is reduced, cell by cell with its index, into an
  object that starts empty, by \<open>Object.assign(acc, {[columns[i]]: cell})\<close>.
\<close>

definition formatResult :: "'c QueryExecResult \<Rightarrow> (string \<rightharpoonup> 'c) list" where
  "formatResult result =
     (let cols = columns result; vals = values' result in
      map (\<lambda>row.
             foldl (\<lambda>acc (i, cell). Object_assign acc (column_key cols i) cell)
               Map.empty (zip [0..<length row] row)) vals)"

section \<open>Repository: state, host and persistence protocol\<close>

text \<open>
  The vault as the repository uses it: whether the data directory exists, and the
  binary files by path.
\<close>

record vault =
  folder :: bool
  files :: "string \<rightharpoonup> bytes"

record TAbstractFile =
  path :: string
  deleted :: bool

datatype console_entry = console_error error | console_log string

text \<open>
  The fields of \<open>SQLiteRepository\<close> together with what its methods act on. The
  engine handle \<open>db\<close> is \<open>None\<close> while undefined; a \<open>Database\<close> object is the
  pair of its identity (the number of objects constructed before it) and the
  engine's current contents. \<open>sql\<close> tells whether the engine runtime is cached in
  \<open>#sql\<close>; \<open>registered\<close> whether the modify listener has been registered.
\<close>

record 'e SQLiteRepository =
  db :: "(nat \<times> 'e) option"
  dbFilePath :: string
  schema :: string
  sql :: bool
  isSaving :: bool
  app :: vault
  console :: "console_entry list"
  registered :: bool
  instances :: nat

text \<open>
  The external collaborators, as parameters: Obsidian's \<open>normalizePath\<close>,
  \<open>createFolder\<close> and \<open>writeBinary\<close> (\<open>Some e\<close>: the call rejects with \<open>e\<close>), the
  bootstrap \<open>initSqlJs\<close> of the engine runtime, and the engine binding (empty
  database, database from bytes, \<open>exec\<close>, \<open>export\<close>). \<open>exec\<close> returns the
  engine's contents after the call also when it throws. The file holds two copies of
  the class, which differ in the \<open>catch\<close> block of \<open>save\<close>: the first logs and
  returns, the second logs and re-throws; \<open>save_rethrows\<close> selects the second.
\<close>

record ('e, 'c) host =
  normalizePath :: "string \<Rightarrow> string"
  initSqlJs :: "error option"
  new_Database :: 'e
  Database_from :: "bytes \<Rightarrow> error + 'e"
  exec :: "'e \<Rightarrow> string \<Rightarrow> Primitive list \<Rightarrow> (error + 'c QueryExecResult list) \<times> 'e"
  export :: "'e \<Rightarrow> bytes"
  createFolder :: "error option"
  writeBinary :: "error option"
  save_rethrows :: bool

definition log_error :: "error \<Rightarrow> 'e SQLiteRepository \<Rightarrow> 'e SQLiteRepository" where
  "log_error e s = s\<lparr>console := console s @ [console_error e]\<rparr>"

definition log_info :: "string \<Rightarrow> 'e SQLiteRepository \<Rightarrow> 'e SQLiteRepository" where
  "log_info m s = s\<lparr>console := console s @ [console_log m]\<rparr>"

definition dbExists :: "('e, 'c) host \<Rightarrow> 'e SQLiteRepository \<Rightarrow> bool" where
  "dbExists h s =
     (if \<not> folder (app s) then False
      else files (app s) (normalizePath h (dbFilePath s)) \<noteq> None)"

definition loadWasm ::
  "('e, 'c) host \<Rightarrow> 'e SQLiteRepository \<Rightarrow> (error + unit) \<times> 'e SQLiteRepository" where
  "loadWasm h s =
     (case initSqlJs h of
        Some e \<Rightarrow> (Inl e, log_error e s)
      | None \<Rightarrow> (Inr (), s))"

text \<open>The \<open>catch\<close> block of \<open>save\<close>.\<close>

definition save_catch ::
  "('e, 'c) host \<Rightarrow> error \<Rightarrow> 'e SQLiteRepository \<Rightarrow> (error + unit) \<times> 'e SQLiteRepository" where
  "save_catch h e s =
     (if save_rethrows h then (Inl e, log_error e s) else (Inr (), log_error e s))"

text \<open>
  \<open>save\<close> and \<open>initDb\<close> call each other: \<open>save\<close> calls \<open>initDb\<close> when it is not
  creating and the file does not exist, and \<open>initDb\<close> calls \<open>save(true)\<close>. In
  \<open>save\<close> the guard is set first and the byte image exported before anything else;
  a rejected \<open>createFolder\<close> is awaited inside the \<open>try\<close> and so reaches the \<open>catch\<close>
  block, while the promise of \<open>writeBinary\<close> is returned without \<open>await\<close>, so its
  rejection is the rejection of \<open>save\<close> itself. \<open>initDb\<close> catches everything and
  returns the handle or \<open>null\<close>.
\<close>

function
  save :: "('e, 'c) host \<Rightarrow> bool \<Rightarrow> 'e SQLiteRepository
             \<Rightarrow> (error + unit) \<times> 'e SQLiteRepository" and
  initDb :: "('e, 'c) host \<Rightarrow> 'e SQLiteRepository \<Rightarrow> nat option \<times> 'e SQLiteRepository"
where
  "save h creating s =
     (case db s of
        None \<Rightarrow> (Inl (Error ''Database was not initialized on repository''), s)
      | Some (i, e) \<Rightarrow>
          (let s1 = s\<lparr>isSaving := True\<rparr>;
               data = export h e;
               s2 = (if \<not> creating \<and> \<not> dbExists h s1 then snd (initDb h s1) else s1)
           in case (if \<not> folder (app s2) then createFolder h else None) of
                Some err \<Rightarrow> save_catch h err s2
              | None \<Rightarrow>
                  (let s3 = s2\<lparr>app := (app s2)\<lparr>folder := True\<rparr>\<rparr>
                   in case writeBinary h of
                        Some err \<Rightarrow> (Inl err, s3)
                      | None \<Rightarrow>
                          (Inr (),
                           s3\<lparr>app := (app s3)\<lparr>files :=
                                 (files (app s3))
                                   (normalizePath h (dbFilePath s3) \<mapsto> data)\<rparr>\<rparr>))))"
| "initDb h s =
     (case loadWasm h s of
        (Inl err, s1) \<Rightarrow> (None, log_error err s1)
      | (Inr u, s1) \<Rightarrow>
          (let i = instances s1;
               s2 = s1\<lparr>db := Some (i, new_Database h), instances := Suc i\<rparr>
           in case exec h (new_Database h) (schema s2) [] of
                (Inl err, e') \<Rightarrow> (None, log_error err (s2\<lparr>db := Some (i, e')\<rparr>))
              | (Inr rs, e') \<Rightarrow>
                  (case save h True (s2\<lparr>db := Some (i, e')\<rparr>) of
                     (Inl err, s3) \<Rightarrow> (None, log_error err s3)
                   | (Inr v, s3) \<Rightarrow>
                       (map_option fst (db s3),
                        log_info ''Incremental Reading database initialized'' s3))))"
  by pat_completeness auto
termination
  by (relation "measure (\<lambda>x. case x of
                                 Inl (h, creating, s) \<Rightarrow> if creating then 0 else 2
                               | Inr (h, s) \<Rightarrow> 1)") auto

declare save.simps [simp del] initDb.simps [simp del]

text \<open>
  \<open>reloadDb\<close>: the runtime is loaded unless cached, the file read and a new
  \<open>Database\<close> constructed from its bytes; any failure is logged and \<open>null\<close>
  returned, leaving \<open>db\<close> as it was. Reading a file that is absent rejects.
\<close>

definition reloadDb ::
  "('e, 'c) host \<Rightarrow> 'e SQLiteRepository \<Rightarrow> nat option \<times> 'e SQLiteRepository" where
  "reloadDb h s =
     (case (if sql s then (Inr (), s) else loadWasm h s) of
        (Inl err, s1) \<Rightarrow> (None, log_error err s1)
      | (Inr u, s1) \<Rightarrow>
          (let s2 = s1\<lparr>sql := True\<rparr>
           in case files (app s2) (normalizePath h (dbFilePath s2)) of
                None \<Rightarrow> (None, log_error (Error ''readBinary: no such file'') s2)
              | Some data \<Rightarrow>
                  (case Database_from h data of
                     Inl err \<Rightarrow> (None, log_error err s2)
                   | Inr e \<Rightarrow>
                       (Some (instances s2),
                        s2\<lparr>db := Some (instances s2, e),
                           instances := Suc (instances s2)\<rparr>))))"

definition updateSchema ::
  "('e, 'c) host \<Rightarrow> 'e SQLiteRepository \<Rightarrow> (error + unit) \<times> 'e SQLiteRepository" where
  "updateSchema h s =
     (case db s of
        None \<Rightarrow> (Inl (Error ''TypeError: this.db is undefined''), s)
      | Some (i, e) \<Rightarrow>
          (case exec h e (schema s) [] of
             (Inl err, e') \<Rightarrow> (Inl err, s\<lparr>db := Some (i, e')\<rparr>)
           | (Inr rs, e') \<Rightarrow> save h False (s\<lparr>db := Some (i, e')\<rparr>)))"

definition loadDb ::
  "('e, 'c) host \<Rightarrow> 'e SQLiteRepository \<Rightarrow> nat option \<times> 'e SQLiteRepository" where
  "loadDb h s =
     (case reloadDb h s of
        (None, s1) \<Rightarrow> (None, s1)
      | (Some r, s1) \<Rightarrow>
          (case updateSchema h s1 of
             (Inl err, s2) \<Rightarrow> (None, log_error err s2)
           | (Inr u, s2) \<Rightarrow> (Some r, log_info ''Incremental Reading database loaded'' s2)))"

text \<open>The private constructor, on the vault of the plugin's app.\<close>

definition new_SQLiteRepository ::
  "('e, 'c) host \<Rightarrow> vault \<Rightarrow> string \<Rightarrow> string \<Rightarrow> 'e SQLiteRepository" where
  "new_SQLiteRepository h v dbFilePath0 schema0 =
     \<lparr>db = None, dbFilePath = normalizePath h dbFilePath0, schema = schema0, sql = False,
      isSaving = False, app = v, console = [], registered = False, instances = 0\<rparr>"

text \<open>
  \<open>start\<close>: the factory. It throws only when the file exists and \<open>loadDb\<close>
  returned \<open>null\<close>; the value of \<open>initDb\<close> is not looked at.
\<close>

definition start ::
  "('e, 'c) host \<Rightarrow> vault \<Rightarrow> string \<Rightarrow> string \<Rightarrow> error + 'e SQLiteRepository" where
  "start h v dbFilePath0 schema0 =
     (let repo = new_SQLiteRepository h v dbFilePath0 schema0 in
      if dbExists h repo then
        (case loadDb h repo of
           (None, s1) \<Rightarrow>
             Inl (Error (''Db file found at '' @ dbFilePath0 @ '', but failed to load''))
         | (Some r, s1) \<Rightarrow> Inr (s1\<lparr>registered := True\<rparr>))
      else
        (case initDb h repo of
           (r, s1) \<Rightarrow> Inr (s1\<lparr>registered := True\<rparr>)))"

definition handleFileChange ::
  "('e, 'c) host \<Rightarrow> TAbstractFile \<Rightarrow> 'e SQLiteRepository \<Rightarrow> 'e SQLiteRepository" where
  "handleFileChange h file s =
     (if path file \<noteq> dbFilePath s \<or> deleted file then s
      else if isSaving s then s\<lparr>isSaving := False\<rparr>
      else snd (reloadDb h s))"

text \<open>
  \<open>execSql\<close>: the whole body is inside \<open>try\<close>. With \<open>db\<close> undefined the call
  \<open>this.db.exec\<close> is a \<open>TypeError\<close>, caught like an error of the engine.
\<close>

definition execSql ::
  "('e, 'c) host \<Rightarrow> string \<Rightarrow> Primitive list \<Rightarrow> 'e SQLiteRepository
     \<Rightarrow> (string \<rightharpoonup> 'c) list list \<times> 'e SQLiteRepository" where
  "execSql h query0 ps s =
     (case db s of
        None \<Rightarrow> ([[]], log_error (Error ''TypeError: this.db is undefined'') s)
      | Some (i, e) \<Rightarrow>
          (case exec h e query0 (coerceParams ps) of
             (Inl err, e') \<Rightarrow> ([[]], log_error err (s\<lparr>db := Some (i, e')\<rparr>))
           | (Inr results, e') \<Rightarrow>
               (if results = [] then [[]] else map formatResult results,
                s\<lparr>db := Some (i, e')\<rparr>)))"

text \<open>
  \<open>query\<close> returns \<open>result[0]\<close>, which is \<open>undefined\<close> (here \<open>None\<close>) on an
  empty array.
\<close>

definition query ::
  "('e, 'c) host \<Rightarrow> string \<Rightarrow> Primitive list \<Rightarrow> 'e SQLiteRepository
     \<Rightarrow> (string \<rightharpoonup> 'c) list option \<times> 'e SQLiteRepository" where
  "query h query0 ps s =
     (case execSql h query0 ps s of
        (result, s1) \<Rightarrow> (case result of [] \<Rightarrow> None | rows # rest \<Rightarrow> Some rows, s1))"

definition mutate ::
  "('e, 'c) host \<Rightarrow> string \<Rightarrow> Primitive list \<Rightarrow> 'e SQLiteRepository
     \<Rightarrow> (error + (string \<rightharpoonup> 'c) list list) \<times> 'e SQLiteRepository" where
  "mutate h query0 ps s =
     (case execSql h query0 ps s of
        (result, s1) \<Rightarrow>
          (case save h False s1 of
             (Inl err, s2) \<Rightarrow> (Inl err, s2)
           | (Inr u, s2) \<Rightarrow> (Inr result, s2)))"

text \<open>
  Every \<open>Database\<close> object held by the repository was constructed earlier: its
  identity is below the count of constructed objects.
\<close>

definition handle_ok :: "'e SQLiteRepository \<Rightarrow> bool" where
  "handle_ok s = (case db s of None \<Rightarrow> True | Some (i, e) \<Rightarrow> i < instances s)"

section \<open>Query composer: INSERT\<close>

text \<open>
  Modelled from the spec: the INSERT builder of the query composer, whose
  \<open>columns\<close>, \<open>values\<close> and \<open>build\<close> are in \<open>QueryComposer.ts\<close>, not among the
  sources (\<open>InsertQuery.ts\<close> is an empty subclass of \<open>Query\<close>). By the spec,
  \<open>columns(...)\<close> declares the column order and \<open>values(...)\<close> takes the row
  objects, emitting one parenthesized group of \<open>?\<close> placeholders per row
  (\<open>VALUES (?, ?), (?, ?)\<close>) with the parameters flattened row-major in the
  declared column order; the test expects the text
  \<open>INSERT INTO snippet (reference, due) VALUES (?, ?), (?, ?)\<close>. A row object
  is read at each declared column.
\<close>

fun join :: "string \<Rightarrow> string list \<Rightarrow> string" where
  "join sep [] = []"
| "join sep [x] = x"
| "join sep (x # y # ys) = x @ sep @ join sep (y # ys)"

definition placeholder_group :: "nat \<Rightarrow> string" where
  "placeholder_group k = ''('' @ join '', '' (replicate k ''?'') @ '')''"

record 'v built =
  query_text :: string
  queryParams :: "'v list"

definition insert_build :: "string \<Rightarrow> string list \<Rightarrow> (string \<Rightarrow> 'v) list \<Rightarrow> 'v built" where
  "insert_build tableName cols rows =
     \<lparr>query_text =
        ''INSERT INTO '' @ tableName @ '' ('' @ join '', '' cols @ '') VALUES ''
          @ join '', '' (map (\<lambda>row. placeholder_group (length cols)) rows),
      queryParams = concat (map (\<lambda>row. map row cols) rows)\<rparr>"

section \<open>A host and a repository for the examples\<close>

text \<open>
  An engine whose contents are its own byte image: a statement other than the two
  below appends one byte and returns no result.
\<close>

definition example_host :: "(bytes, Primitive) host" where
  "example_host =
     \<lparr>normalizePath = (\<lambda>p. p),
      initSqlJs = None,
      new_Database = [],
      Database_from = (\<lambda>data. Inr data),
      exec = (\<lambda>e q ps.
        if q = ''SELECT 1 AS a; SELECT 2 AS b'' then
          (Inr [\<lparr>columns = [''a''], values' = [[Number 1]]\<rparr>,
                \<lparr>columns = [''b''], values' = [[Number 2]]\<rparr>], e)
        else if q = ''SELEC'' then (Inl (Error ''near SELEC: syntax error''), e)
        else (Inr [], e @ [1])),
      export = (\<lambda>e. e),
      createFolder = None,
      writeBinary = None,
      save_rethrows = False\<rparr>"

definition example_repo :: "bytes SQLiteRepository" where
  "example_repo =
     \<lparr>db = Some (0, [7]), dbFilePath = ''data/ir.sqlite'', schema = ''CREATE'', sql = True,
      isSaving = False,
      app = \<lparr>folder = True, files = [''data/ir.sqlite'' \<mapsto> [7]]\<rparr>,
      console = [], registered = True, instances = 1\<rparr>"

section \<open>Helper lemmas\<close>








text \<open>\<open>save(true)\<close> never reaches \<open>initDb\<close>.\<close>

lemma save_creating:
  "save h True s =
     (case db s of
        None \<Rightarrow> (Inl (Error ''Database was not initialized on repository''), s)
      | Some (i, e) \<Rightarrow>
          (let s2 = s\<lparr>isSaving := True\<rparr>
           in case (if \<not> folder (app s2) then createFolder h else None) of
                Some err \<Rightarrow> save_catch h err s2
              | None \<Rightarrow>
                  (let s3 = s2\<lparr>app := (app s2)\<lparr>folder := True\<rparr>\<rparr>
                   in case writeBinary h of
                        Some err \<Rightarrow> (Inl err, s3)
                      | None \<Rightarrow>
                          (Inr (),
                           s3\<lparr>app := (app s3)\<lparr>files :=
                                 (files (app s3))
                                   (normalizePath h (dbFilePath s3) \<mapsto> export h e)\<rparr>\<rparr>))))"
  by (subst save.simps) (simp add: Let_def split: option.splits)

lemma save_creating_frame:
  assumes "save h True s = (r, s')"
  shows "dbFilePath s' = dbFilePath s \<and> db s' = db s \<and> instances s' = instances s
         \<and> (isSaving s \<longrightarrow> isSaving s') \<and> (folder (app s) \<longrightarrow> folder (app s'))"
  using assms
  by (auto simp: save_creating save_catch_def log_error_def Let_def
      split: option.splits if_splits)

lemma initDb_frame:
  assumes "initDb h s = (r, s')"
  shows "dbFilePath s' = dbFilePath s \<and> (isSaving s \<longrightarrow> isSaving s')
         \<and> (handle_ok s \<longrightarrow> handle_ok s') \<and> (folder (app s) \<longrightarrow> folder (app s'))"
  using assms
  apply (subst (asm) initDb.simps)
  apply (auto simp: loadWasm_def log_error_def log_info_def Let_def handle_ok_def
      split: option.splits prod.splits sum.splits dest!: save_creating_frame)
  done

lemma handle_ok_isSaving [simp]: "handle_ok (s\<lparr>isSaving := b\<rparr>) = handle_ok s"
  by (simp add: handle_ok_def split: option.splits)

text \<open>
  With a database present, \<open>save\<close> is its tail (folder, write) run on the state
  \<open>s2\<close> left by the guard and the optional \<open>initDb\<close>.
\<close>

lemma save_Some:
  assumes "db s = Some (i, e)"
  obtains s2 where
    "save h creating s =
       (case (if \<not> folder (app s2) then createFolder h else None) of
          Some err \<Rightarrow> save_catch h err s2
        | None \<Rightarrow>
            (case writeBinary h of
               Some err \<Rightarrow> (Inl err, s2\<lparr>app := (app s2)\<lparr>folder := True\<rparr>\<rparr>)
             | None \<Rightarrow>
                 (Inr (),
                  s2\<lparr>app := (app s2)\<lparr>folder := True,
                        files := (files (app s2))
                           (normalizePath h (dbFilePath s2) \<mapsto> export h e)\<rparr>\<rparr>)))"
    "dbFilePath s2 = dbFilePath s" "isSaving s2" "handle_ok s \<longrightarrow> handle_ok s2"
    "folder (app s) \<longrightarrow> folder (app s2)"
proof -
  let ?s1 = "s\<lparr>isSaving := True\<rparr>"
  define s2 where "s2 = (if \<not> creating \<and> \<not> dbExists h ?s1 then snd (initDb h ?s1) else ?s1)"
  have frame: "dbFilePath s2 = dbFilePath s \<and> isSaving s2 \<and> (handle_ok s \<longrightarrow> handle_ok s2)
      \<and> (folder (app s) \<longrightarrow> folder (app s2))"
    using initDb_frame[of h ?s1 "fst (initDb h ?s1)" "snd (initDb h ?s1)"]
    by (auto simp: s2_def)
  have "save h creating s =
     (case (if \<not> folder (app s2) then createFolder h else None) of
                Some err \<Rightarrow> save_catch h err s2
              | None \<Rightarrow>
                  (let s3 = s2\<lparr>app := (app s2)\<lparr>folder := True\<rparr>\<rparr>
                   in case writeBinary h of
                        Some err \<Rightarrow> (Inl err, s3)
                      | None \<Rightarrow>
                          (Inr (),
                           s3\<lparr>app := (app s3)\<lparr>files :=
                                 (files (app s3))
                                   (normalizePath h (dbFilePath s3) \<mapsto> export h e)\<rparr>\<rparr>)))"
    by (subst save.simps) (simp only: assms option.case prod.case Let_def s2_def)
  then have "save h creating s =
       (case (if \<not> folder (app s2) then createFolder h else None) of
          Some err \<Rightarrow> save_catch h err s2
        | None \<Rightarrow>
            (case writeBinary h of
               Some err \<Rightarrow> (Inl err, s2\<lparr>app := (app s2)\<lparr>folder := True\<rparr>\<rparr>)
             | None \<Rightarrow>
                 (Inr (),
                  s2\<lparr>app := (app s2)\<lparr>folder := True,
                        files := (files (app s2))
                           (normalizePath h (dbFilePath s2) \<mapsto> export h e)\<rparr>\<rparr>)))"
    by (simp add: Let_def split: option.splits)
  then show thesis using frame that by blast
qed

lemma save_None:
  "db s = None \<Longrightarrow>
   save h creating s = (Inl (Error ''Database was not initialized on repository''), s)"
  by (subst save.simps) simp

lemma save_frame:
  assumes "save h creating s = (r, s')"
  shows "dbFilePath s' = dbFilePath s \<and> (handle_ok s \<longrightarrow> handle_ok s')"
proof (cases "db s")
  case None
  then show ?thesis using assms by (simp add: save_None)
next
  case (Some a)
  obtain i e where a: "a = (i, e)" by (cases a)
  from Some a have "db s = Some (i, e)" by simp
  from save_Some[OF this, of h creating] obtain s2 where
    "save h creating s =
       (case (if \<not> folder (app s2) then createFolder h else None) of
          Some err \<Rightarrow> save_catch h err s2
        | None \<Rightarrow>
            (case writeBinary h of
               Some err \<Rightarrow> (Inl err, s2\<lparr>app := (app s2)\<lparr>folder := True\<rparr>\<rparr>)
             | None \<Rightarrow>
                 (Inr (),
                  s2\<lparr>app := (app s2)\<lparr>folder := True,
                        files := (files (app s2))
                           (normalizePath h (dbFilePath s2) \<mapsto> export h e)\<rparr>\<rparr>)))"
    "dbFilePath s2 = dbFilePath s" "isSaving s2" "handle_ok s \<longrightarrow> handle_ok s2" 
    by blast
  then show ?thesis using assms
    by (auto simp: save_catch_def log_error_def handle_ok_def
      split: option.splits if_splits)
qed

lemma save_resolves_guard:
  assumes "save h creating s = (Inr u, s')"
  shows "isSaving s'"
proof (cases "db s")
  case None
  then show ?thesis using assms by (simp add: save_None)
next
  case (Some a)
  obtain i e where a: "a = (i, e)" by (cases a)
  from Some a have "db s = Some (i, e)" by simp
  from save_Some[OF this, of h creating] obtain s2 where
    "save h creating s =
       (case (if \<not> folder (app s2) then createFolder h else None) of
          Some err \<Rightarrow> save_catch h err s2
        | None \<Rightarrow>
            (case writeBinary h of
               Some err \<Rightarrow> (Inl err, s2\<lparr>app := (app s2)\<lparr>folder := True\<rparr>\<rparr>)
             | None \<Rightarrow>
                 (Inr (),
                  s2\<lparr>app := (app s2)\<lparr>folder := True,
                        files := (files (app s2))
                           (normalizePath h (dbFilePath s2) \<mapsto> export h e)\<rparr>\<rparr>)))"
    "isSaving s2"
    by blast
  then show ?thesis using assms
    by (auto simp: save_catch_def log_error_def split: option.splits if_splits)
qed

lemma save_writes_image:
  assumes "db s = Some (i, e)" "folder (app s) \<or> createFolder h = None" "writeBinary h = None"
  shows "\<exists>s'. save h creating s = (Inr (), s')
           \<and> files (app s') (normalizePath h (dbFilePath s)) = Some (export h e)
           \<and> isSaving s'"
proof -
  from save_Some[OF assms(1), of h creating] obtain s2 where
    "save h creating s =
       (case (if \<not> folder (app s2) then createFolder h else None) of
          Some err \<Rightarrow> save_catch h err s2
        | None \<Rightarrow>
            (case writeBinary h of
               Some err \<Rightarrow> (Inl err, s2\<lparr>app := (app s2)\<lparr>folder := True\<rparr>\<rparr>)
             | None \<Rightarrow>
                 (Inr (),
                  s2\<lparr>app := (app s2)\<lparr>folder := True,
                        files := (files (app s2))
                           (normalizePath h (dbFilePath s2) \<mapsto> export h e)\<rparr>\<rparr>)))"
    "dbFilePath s2 = dbFilePath s" "isSaving s2" "folder (app s) \<longrightarrow> folder (app s2)"
    by blast
  then show ?thesis using assms(2,3) by auto
qed

lemma execSql_frame:
  "app (snd (execSql h q ps s)) = app s \<and> isSaving (snd (execSql h q ps s)) = isSaving s
   \<and> dbFilePath (snd (execSql h q ps s)) = dbFilePath s"
  by (auto simp: execSql_def log_error_def split: prod.splits sum.splits option.splits)

lemma execSql_db:
  "db s = Some (i, e) \<Longrightarrow> exec h e q (coerceParams ps) = (res, e') \<Longrightarrow>
   db (snd (execSql h q ps s)) = Some (i, e')"
  by (auto simp: execSql_def log_error_def split: prod.splits sum.splits option.splits)

lemma execSql_db_None:
  "db s = None \<Longrightarrow> db (snd (execSql h q ps s)) = None"
  by (auto simp: execSql_def log_error_def)

lemma reloadDb_loads:
  assumes "sql s \<or> initSqlJs h = None"
    "files (app s) (normalizePath h (dbFilePath s)) = Some data"
    "Database_from h data = Inr e"
  shows "db (snd (reloadDb h s)) = Some (instances s, e)"
  using assms by (auto simp: reloadDb_def loadWasm_def)

lemma example_save:
  "save example_host False example_repo = (Inr (), example_repo\<lparr>isSaving := True\<rparr>)"
  by (subst save.simps)
     (simp add: example_host_def example_repo_def dbExists_def Let_def)

lemma example_handle_ok: "handle_ok example_repo"
  by (simp add: handle_ok_def example_repo_def)

text \<open>
  The identity bookkeeping holds in every state the repository reaches: in the
  repository returned by \<open>start\<close>, and after each of its operations.
\<close>

lemma handle_ok_log [simp]:
  "handle_ok (log_error err s) = handle_ok s" "handle_ok (log_info m s) = handle_ok s"
  by (simp_all add: handle_ok_def log_error_def log_info_def split: option.splits)

lemma reloadDb_handle_ok: "handle_ok s \<Longrightarrow> handle_ok (snd (reloadDb h s))"
  by (auto simp: reloadDb_def loadWasm_def handle_ok_def log_error_def Let_def
      split: option.splits sum.splits)

lemma handleFileChange_handle_ok: "handle_ok s \<Longrightarrow> handle_ok (handleFileChange h f s)"
  by (simp add: handleFileChange_def reloadDb_handle_ok)

lemma execSql_handle_ok: "handle_ok s \<Longrightarrow> handle_ok (snd (execSql h q ps s))"
  by (auto simp: execSql_def handle_ok_def log_error_def split: option.splits sum.splits prod.splits)

lemma mutate_handle_ok: "handle_ok s \<Longrightarrow> handle_ok (snd (mutate h q ps s))"
proof -
  assume ok: "handle_ok s"
  obtain r s1 where ex: "execSql h q ps s = (r, s1)" by (cases "execSql h q ps s")
  obtain r2 s2 where sv: "save h False s1 = (r2, s2)" by (cases "save h False s1")
  have "handle_ok s1" using execSql_handle_ok[OF ok, of h q ps] ex by simp
  then have "handle_ok s2" using save_frame[OF sv] by simp
  then show ?thesis by (cases r2) (simp_all add: mutate_def ex sv)
qed

lemma updateSchema_handle_ok:
  "handle_ok s \<Longrightarrow> handle_ok (snd (updateSchema h s))"
proof (cases "db s")
  case None
  assume "handle_ok s"
  then show ?thesis using None by (simp add: updateSchema_def)
next
  case (Some a)
  assume ok: "handle_ok s"
  obtain i e where a: "a = (i, e)" by (cases a)
  obtain res e' where ex: "exec h e (schema s) [] = (res, e')" by (cases "exec h e (schema s) []")
  have ok': "handle_ok (s\<lparr>db := Some (i, e')\<rparr>)" using ok Some a by (simp add: handle_ok_def)
  show ?thesis
  proof (cases res)
    case (Inl err)
    then show ?thesis using ok' by (simp add: updateSchema_def Some a ex)
  next
    case (Inr rs)
    obtain r2 s2 where sv: "save h False (s\<lparr>db := Some (i, e')\<rparr>) = (r2, s2)"
      by (cases "save h False (s\<lparr>db := Some (i, e')\<rparr>)")
    then show ?thesis using save_frame[OF sv] ok' Inr by (simp add: updateSchema_def Some a ex)
  qed
qed

lemma loadDb_handle_ok: "handle_ok s \<Longrightarrow> handle_ok (snd (loadDb h s))"
proof -
  assume ok: "handle_ok s"
  obtain r s1 where rl: "reloadDb h s = (r, s1)" by (cases "reloadDb h s")
  have ok1: "handle_ok s1" using reloadDb_handle_ok[OF ok, of h] rl by simp
  obtain r2 s2 where us: "updateSchema h s1 = (r2, s2)" by (cases "updateSchema h s1")
  have ok2: "handle_ok s2" using updateSchema_handle_ok[OF ok1, of h] us by simp
  show ?thesis using ok1 ok2 by (cases r; cases r2) (simp_all add: loadDb_def rl us)
qed

lemma start_handle_ok: "start h v p sch = Inr r \<Longrightarrow> handle_ok r"
proof -
  assume st: "start h v p sch = Inr r"
  let ?repo = "new_SQLiteRepository h v p sch"
  have ok0: "handle_ok ?repo" by (simp add: handle_ok_def new_SQLiteRepository_def)
  have reg: "handle_ok (s\<lparr>registered := True\<rparr>) = handle_ok s" for s :: "'a SQLiteRepository"
    by (simp add: handle_ok_def split: option.splits)
  show ?thesis
  proof (cases "dbExists h ?repo")
    case True
    obtain r1 s1 where ld: "loadDb h ?repo = (r1, s1)" by (cases "loadDb h ?repo")
    have "handle_ok s1" using loadDb_handle_ok[OF ok0, of h] ld by simp
    then show ?thesis using st True ld by (cases r1) (auto simp: start_def reg)
  next
    case False
    obtain r1 s1 where ini: "initDb h ?repo = (r1, s1)" by (cases "initDb h ?repo")
    have "handle_ok s1" using initDb_frame[OF ini] ok0 by simp
    then show ?thesis using st False ini by (auto simp: start_def reg)
  qed
qed

text \<open>Counting in the placeholder text, and reading the flattened rows.\<close>

lemma map_const_replicate: "map (\<lambda>x. c) xs = replicate (length xs) c"
  by (induction xs) simp_all

lemma count_join_placeholders:
  "count_list (join '', '' (replicate k ''?'')) CHR ''?'' = k"
proof (induction k)
  case 0
  show ?case by simp
next
  case (Suc k)
  show ?case
  proof (cases k)
    case 0
    then show ?thesis by simp
  next
    case (Suc m)
    then have "join '', '' (replicate (Suc k) ''?'') = ''?'' @ '', '' @ join '', '' (replicate k ''?'')"
      by simp
    then show ?thesis using Suc.IH by simp
  qed
qed

lemma count_join_other:
  "c \<noteq> CHR ''?'' \<Longrightarrow> c \<noteq> CHR '','' \<Longrightarrow> c \<noteq> CHR '' '' \<Longrightarrow>
   count_list (join '', '' (replicate k ''?'')) c = 0"
proof (induction k)
  case 0
  show ?case by simp
next
  case (Suc k)
  show ?case
  proof (cases k)
    case 0
    then show ?thesis using Suc.prems by simp
  next
    case (Suc m)
    then have "join '', '' (replicate (Suc k) ''?'') = ''?'' @ '', '' @ join '', '' (replicate k ''?'')"
      by simp
    then show ?thesis using Suc.IH Suc.prems by simp
  qed
qed

lemma length_flat_rows:
  "length (concat (map (\<lambda>row. map row cols) rows)) = length rows * length cols"
  by (induction rows) simp_all

lemma nth_flat_rows:
  "i < length rows \<Longrightarrow> j < length cols \<Longrightarrow>
   concat (map (\<lambda>row. map row cols) rows) ! (i * length cols + j) = (rows ! i) (cols ! j)"
proof (induction rows arbitrary: i)
  case Nil
  then show ?case by simp
next
  case (Cons r rows)
  show ?case
  proof (cases i)
    case 0
    then show ?thesis using Cons.prems by (simp add: nth_append)
  next
    case (Suc k)
    have "Suc k * length cols + j = length (map r cols) + (k * length cols + j)" by simp
    then have "concat (map (\<lambda>row. map row cols) (r # rows)) ! (Suc k * length cols + j)
        = concat (map (\<lambda>row. map row cols) rows) ! (k * length cols + j)"
      by (simp only: list.map concat.simps nth_append_length_plus)
    then show ?thesis using Cons.IH[of k] Cons.prems Suc by simp
  qed
qed

section \<open>The condition builder\<close>


text \<open>
  The two checks of \<open>createCondition\<close>: given a tree, a \<open>WHERE\<close> condition
  throws, and without a tree an \<open>AND\<close> or \<open>OR\<close> condition throws; each of the
  seven comparator methods hands the error to its caller.
\<close>

lemma createCondition_misuse_throws:
  "createCondition column WHERE ps (Some t) cmp v =
     Inl (Error ''WHERE should not be called multiple times in one query'')
   \<and> createCondition column AND ps None cmp v =
     Inl (Error ''AND or OR called without a preexisting WHERE; this shouldn't happen.'')
   \<and> createCondition column OR ps None cmp v =
     Inl (Error ''AND or OR called without a preexisting WHERE; this shouldn't happen.'')
   \<and> map (\<lambda>m. m (where' ps (Some t) column) v) [eq, neq, lt, lte, gt, gte, in'] =
     replicate 7 (Inl (Error ''WHERE should not be called multiple times in one query''))
   \<and> map (\<lambda>m. m (and' \<lparr>params = ps, conditions = None\<rparr> column) v)
         [eq, neq, lt, lte, gt, gte, in'] =
     replicate 7
       (Inl (Error ''AND or OR called without a preexisting WHERE; this shouldn't happen.''))
   \<and> map (\<lambda>m. m (or' \<lparr>params = ps, conditions = None\<rparr> column) v)
         [eq, neq, lt, lte, gt, gte, in'] =
     replicate 7
       (Inl (Error ''AND or OR called without a preexisting WHERE; this shouldn't happen.''))"
  by (simp add: createCondition_def createConditions_def where'_def and'_def or'_def
      numeral_eq_Suc)


section \<open>Value coercion and result formatting\<close>

text \<open>
  C7. \<open>coerceParams\<close> keeps the length of the list and maps the element at each
  index by its type: \<open>true\<close> to 1, \<open>false\<close> to 0, a symbol to its string
  representation, \<open>undefined\<close> to \<open>null\<close>, and a string, a number or \<open>null\<close> to
  itself. The list \<open>[true, false, undefined, Symbol('x')]\<close> becomes
  \<open>[1, 0, null, 'Symbol(x)']\<close>.
\<close>

theorem coerceParams_by_runtime_type:
  "length (coerceParams ps) = length ps
   \<and> (\<forall>i<length ps.
        (ps ! i = Boolean True \<longrightarrow> coerceParams ps ! i = Number 1)
      \<and> (ps ! i = Boolean False \<longrightarrow> coerceParams ps ! i = Number 0)
      \<and> (\<forall>d. ps ! i = Symbol d \<longrightarrow> coerceParams ps ! i = String (''Symbol('' @ d @ '')''))
      \<and> (ps ! i = Undefined \<longrightarrow> coerceParams ps ! i = Null)
      \<and> ((\<exists>t. ps ! i = String t) \<or> (\<exists>n. ps ! i = Number n) \<or> ps ! i = Null
            \<longrightarrow> coerceParams ps ! i = ps ! i))
   \<and> coerceParams [Boolean True, Boolean False, Undefined, Symbol ''x''] =
       [Number 1, Number 0, Null, String ''Symbol(x)'']"
  by (auto simp add: coerceParams_def)

theorem coerceParams_by_runtime_type_witness:
  "(2::nat) < length [Boolean True, String ''a'', Symbol ''x'', Undefined]
   \<and> [Boolean True, String ''a'', Symbol ''x'', Undefined] ! 2 = Symbol ''x''
   \<and> coerceParams [Boolean True, String ''a'', Symbol ''x'', Undefined] ! 2
       = String ''Symbol(x)''
   \<and> coerceParams [Boolean True, String ''a'', Symbol ''x'', Undefined] ! 1 = String ''a''"
proof -
  let ?ps = "[Boolean True, String ''a'', Symbol ''x'', Undefined]"
  have i2: "(2::nat) < length ?ps" and i1: "(1::nat) < length ?ps" by simp_all
  have at2: "?ps ! 2 = Symbol ''x''" by (simp add: numeral_2_eq_2)
  have at1: "(\<exists>t. ?ps ! 1 = String t) \<or> (\<exists>n. ?ps ! 1 = Number n) \<or> ?ps ! 1 = Null"
    by simp
  note main = coerceParams_by_runtime_type[of ?ps]
  have "coerceParams ?ps ! 2 = String (''Symbol('' @ ''x'' @ '')'')"
    using main i2 at2 by blast
  moreover have "coerceParams ?ps ! 1 = ?ps ! 1"
    using main i1 at1 by blast
  ultimately show ?thesis using i2 at2 by simp
qed




section \<open>The repository\<close>

text \<open>
  C1. Self-write suppression. A save that completed has left the guard set. The
  next change notification for the database's own path then only clears the guard:
  the state is otherwise the same, so the engine instance is the one held before
  and nothing was reloaded. A further notification for that path, with the guard
  cleared, is a reload: the state is the one \<open>reloadDb\<close> produces, and when the
  runtime is available, the file is read and the engine accepts its bytes, the
  repository holds a newly constructed engine instance, different from the one held
  before.
\<close>

theorem self_write_suppression:
  assumes "save h creating s = (Inr u, s1)" and "handle_ok s"
  shows "isSaving s1
     \<and> handleFileChange h \<lparr>path = dbFilePath s1, deleted = False\<rparr> s1 = s1\<lparr>isSaving := False\<rparr>
     \<and> db (handleFileChange h \<lparr>path = dbFilePath s1, deleted = False\<rparr> s1) = db s1
     \<and> handleFileChange h \<lparr>path = dbFilePath s1, deleted = False\<rparr> (s1\<lparr>isSaving := False\<rparr>)
         = snd (reloadDb h (s1\<lparr>isSaving := False\<rparr>))
     \<and> (\<forall>data e. (sql s1 \<or> initSqlJs h = None)
           \<and> files (app s1) (normalizePath h (dbFilePath s1)) = Some data
           \<and> Database_from h data = Inr e \<longrightarrow>
         db (handleFileChange h \<lparr>path = dbFilePath s1, deleted = False\<rparr> (s1\<lparr>isSaving := False\<rparr>))
           = Some (instances s1, e)
         \<and> db (handleFileChange h \<lparr>path = dbFilePath s1, deleted = False\<rparr> (s1\<lparr>isSaving := False\<rparr>))
           \<noteq> db s1)"
proof -
  have guard: "isSaving s1" using assms(1) by (rule save_resolves_guard)
  have ok: "handle_ok s1" using save_frame[OF assms(1)] assms(2) by simp
  have first: "handleFileChange h \<lparr>path = dbFilePath s1, deleted = False\<rparr> s1 = s1\<lparr>isSaving := False\<rparr>"
    using guard by (simp add: handleFileChange_def)
  have second: "handleFileChange h \<lparr>path = dbFilePath s1, deleted = False\<rparr> (s1\<lparr>isSaving := False\<rparr>)
         = snd (reloadDb h (s1\<lparr>isSaving := False\<rparr>))"
    by (simp add: handleFileChange_def)
  have fresh: "db (snd (reloadDb h (s1\<lparr>isSaving := False\<rparr>))) = Some (instances s1, e)
       \<and> db (snd (reloadDb h (s1\<lparr>isSaving := False\<rparr>))) \<noteq> db s1"
    if "sql s1 \<or> initSqlJs h = None"
      "files (app s1) (normalizePath h (dbFilePath s1)) = Some data"
      "Database_from h data = Inr e" for data e
    using that ok reloadDb_loads[of "s1\<lparr>isSaving := False\<rparr>" h data e]
    by (auto simp: handle_ok_def split: option.splits)
  show ?thesis
  proof (intro conjI allI impI)
    fix data e
    assume a: "(sql s1 \<or> initSqlJs h = None)
           \<and> files (app s1) (normalizePath h (dbFilePath s1)) = Some data
           \<and> Database_from h data = Inr e"
    from a have a1: "sql s1 \<or> initSqlJs h = None"
      and a2: "files (app s1) (normalizePath h (dbFilePath s1)) = Some data"
      and a3: "Database_from h data = Inr e" by simp_all
    note f = fresh[OF a1 a2 a3]
    show "db (handleFileChange h \<lparr>path = dbFilePath s1, deleted = False\<rparr> (s1\<lparr>isSaving := False\<rparr>))
           = Some (instances s1, e)" unfolding second by (rule f[THEN conjunct1])
    show "db (handleFileChange h \<lparr>path = dbFilePath s1, deleted = False\<rparr> (s1\<lparr>isSaving := False\<rparr>))
           \<noteq> db s1" unfolding second by (rule f[THEN conjunct2])
  qed (simp_all add: guard first second)
qed


theorem self_write_suppression_witness:
  "save example_host False example_repo = (Inr (), example_repo\<lparr>isSaving := True\<rparr>)
   \<and> handle_ok example_repo
   \<and> handleFileChange example_host \<lparr>path = ''data/ir.sqlite'', deleted = False\<rparr>
        (example_repo\<lparr>isSaving := True\<rparr>) = example_repo
   \<and> db (handleFileChange example_host \<lparr>path = ''data/ir.sqlite'', deleted = False\<rparr>
        example_repo) = Some (1, [7])"
proof -
  let ?s1 = "example_repo\<lparr>isSaving := True\<rparr>"
  note main = self_write_suppression[OF example_save example_handle_ok]
  have p: "dbFilePath ?s1 = ''data/ir.sqlite''" by (simp add: example_repo_def)
  have c: "?s1\<lparr>isSaving := False\<rparr> = example_repo" by (simp add: example_repo_def)
  have hyp: "(sql ?s1 \<or> initSqlJs example_host = None)
     \<and> files (app ?s1) (normalizePath example_host (dbFilePath ?s1)) = Some [7]
     \<and> Database_from example_host [7] = Inr [7]"
    by (simp add: example_repo_def example_host_def)
  have i: "instances ?s1 = 1" by (simp add: example_repo_def)
  from main have first: "handleFileChange example_host \<lparr>path = dbFilePath ?s1, deleted = False\<rparr> ?s1
      = ?s1\<lparr>isSaving := False\<rparr>" by (elim conjE)
  from main have "\<forall>data e. (sql ?s1 \<or> initSqlJs example_host = None)
           \<and> files (app ?s1) (normalizePath example_host (dbFilePath ?s1)) = Some data
           \<and> Database_from example_host data = Inr e \<longrightarrow>
         db (handleFileChange example_host \<lparr>path = dbFilePath ?s1, deleted = False\<rparr> (?s1\<lparr>isSaving := False\<rparr>))
           = Some (instances ?s1, e)
         \<and> db (handleFileChange example_host \<lparr>path = dbFilePath ?s1, deleted = False\<rparr> (?s1\<lparr>isSaving := False\<rparr>))
           \<noteq> db ?s1" by (elim conjE)
  with hyp have "db (handleFileChange example_host \<lparr>path = dbFilePath ?s1, deleted = False\<rparr> (?s1\<lparr>isSaving := False\<rparr>))
           = Some (instances ?s1, [7])" by blast
  then have second: "db (handleFileChange example_host \<lparr>path = ''data/ir.sqlite'', deleted = False\<rparr>
        example_repo) = Some (1, [7])" by (simp only: p c i)
  from first have "handleFileChange example_host \<lparr>path = ''data/ir.sqlite'', deleted = False\<rparr>
        ?s1 = example_repo" by (simp only: p c)
  then show ?thesis using second example_save example_handle_ok by simp
qed

text \<open>
  C5. When the engine's \<open>exec\<close> throws, \<open>execSql\<close> logs the error and returns
  \<open>[[]]\<close>, as it does when the engine returns no result at all (and when there
  is no engine): \<open>query\<close> then returns an empty array in both cases, and any value
  \<open>mutate\<close> returns is \<open>[[]]\<close> in both cases. \<open>execSql\<close> has no error result.
\<close>

theorem execSql_swallows_engine_errors:
  "(\<forall>i e err e'. db s = Some (i, e) \<and> exec h e q (coerceParams ps) = (Inl err, e') \<longrightarrow>
      execSql h q ps s = ([[]], log_error err (s\<lparr>db := Some (i, e')\<rparr>))
      \<and> fst (query h q ps s) = Some []
      \<and> (\<forall>r. fst (mutate h q ps s) = Inr r \<longrightarrow> r = [[]]))
   \<and> (\<forall>i e e'. db s = Some (i, e) \<and> exec h e q (coerceParams ps) = (Inr [], e') \<longrightarrow>
      fst (execSql h q ps s) = [[]]
      \<and> fst (query h q ps s) = Some []
      \<and> (\<forall>r. fst (mutate h q ps s) = Inr r \<longrightarrow> r = [[]]))
   \<and> (db s = None \<longrightarrow> fst (execSql h q ps s) = [[]])"
  by (auto simp: execSql_def query_def mutate_def split: prod.splits sum.splits)


theorem execSql_swallows_engine_errors_witness:
  "db example_repo = Some (0, [7])
   \<and> exec example_host [7] ''SELEC'' (coerceParams []) = (Inl (Error ''near SELEC: syntax error''), [7])
   \<and> exec example_host [7] ''DELETE'' (coerceParams []) = (Inr [], [7, 1])
   \<and> fst (execSql example_host ''SELEC'' [] example_repo) = [[]]
   \<and> fst (query example_host ''SELEC'' [] example_repo) = Some []
   \<and> fst (query example_host ''DELETE'' [] example_repo) = Some []"
proof -
  have d: "db example_repo = Some (0, [7])" by (simp add: example_repo_def)
  have bad: "exec example_host [7] ''SELEC'' (coerceParams [])
       = (Inl (Error ''near SELEC: syntax error''), [7])"
    by (simp add: example_host_def)
  have none: "exec example_host [7] ''DELETE'' (coerceParams []) = (Inr [], [7, 1])"
    by (simp add: example_host_def)
  note failed = execSql_swallows_engine_errors[of example_repo example_host "''SELEC''" "[]",
      THEN conjunct1]
  note empty = execSql_swallows_engine_errors[of example_repo example_host "''DELETE''" "[]",
      THEN conjunct2, THEN conjunct1]
  have "execSql example_host ''SELEC'' [] example_repo
          = ([[]], log_error (Error ''near SELEC: syntax error'') (example_repo\<lparr>db := Some (0, [7])\<rparr>))
        \<and> fst (query example_host ''SELEC'' [] example_repo) = Some []"
    using failed d bad by blast
  moreover have "fst (query example_host ''DELETE'' [] example_repo) = Some []"
    using empty d none by blast
  ultimately show ?thesis using d bad none by simp
qed

text \<open>
  C6. \<open>mutate\<close> is \<open>execSql\<close> followed by \<open>save\<close> on the state it leaves,
  whatever \<open>exec\<close> did: with an engine present, and the folder and the write
  succeeding, the file afterwards holds the byte image exported from the engine
  after the statement, also when the statement threw, and the guard is set; with
  no engine, \<open>mutate\<close> fails with the error of \<open>save\<close>. \<open>query\<close> leaves the
  vault and the guard as they were: its state is the one \<open>execSql\<close> leaves.
\<close>

theorem mutate_saves_query_does_not:
  "mutate h q ps s =
     (case save h False (snd (execSql h q ps s)) of
        (Inl err, s2) \<Rightarrow> (Inl err, s2)
      | (Inr u, s2) \<Rightarrow> (Inr (fst (execSql h q ps s)), s2))
   \<and> (\<forall>i e res e'. db s = Some (i, e) \<and> exec h e q (coerceParams ps) = (res, e')
         \<and> (folder (app s) \<or> createFolder h = None) \<and> writeBinary h = None \<longrightarrow>
       (\<exists>s'. mutate h q ps s = (Inr (fst (execSql h q ps s)), s')
          \<and> files (app s') (normalizePath h (dbFilePath s)) = Some (export h e')
          \<and> isSaving s'))
   \<and> (db s = None \<longrightarrow>
         fst (mutate h q ps s) = Inl (Error ''Database was not initialized on repository''))
   \<and> app (snd (query h q ps s)) = app s
   \<and> isSaving (snd (query h q ps s)) = isSaving s
   \<and> snd (query h q ps s) = snd (execSql h q ps s)"
proof (intro conjI allI impI)
  show "mutate h q ps s =
     (case save h False (snd (execSql h q ps s)) of
        (Inl err, s2) \<Rightarrow> (Inl err, s2)
      | (Inr u, s2) \<Rightarrow> (Inr (fst (execSql h q ps s)), s2))"
    by (cases "execSql h q ps s") (auto simp: mutate_def split: prod.splits sum.splits)
next
  fix i e res e'
  assume a: "db s = Some (i, e) \<and> exec h e q (coerceParams ps) = (res, e')
         \<and> (folder (app s) \<or> createFolder h = None) \<and> writeBinary h = None"
  obtain r s1 where ex: "execSql h q ps s = (r, s1)" by (cases "execSql h q ps s")
  have d: "db s1 = Some (i, e')" using a ex execSql_db[of s i e h q ps res e'] by simp
  have fr: "app s1 = app s" "dbFilePath s1 = dbFilePath s"
    using ex execSql_frame[of h q ps s] by simp_all
  have f: "folder (app s1) \<or> createFolder h = None" using a fr by simp
  have w: "writeBinary h = None" using a by simp
  from save_writes_image[OF d f w, of False] obtain s' where "save h False s1 = (Inr (), s')"
    "files (app s') (normalizePath h (dbFilePath s1)) = Some (export h e')" "isSaving s'"
    by auto
  then show "\<exists>s'. mutate h q ps s = (Inr (fst (execSql h q ps s)), s')
          \<and> files (app s') (normalizePath h (dbFilePath s)) = Some (export h e')
          \<and> isSaving s'"
    by (simp add: mutate_def ex fr)
next
  assume "db s = None"
  then have "db (snd (execSql h q ps s)) = None" by (rule execSql_db_None)
  then show "fst (mutate h q ps s) = Inl (Error ''Database was not initialized on repository'')"
    by (cases "execSql h q ps s") (simp add: mutate_def save_None)
next
  show "app (snd (query h q ps s)) = app s"
    using execSql_frame[of h q ps s] by (cases "execSql h q ps s") (simp add: query_def)
next
  show "isSaving (snd (query h q ps s)) = isSaving s"
    using execSql_frame[of h q ps s] by (cases "execSql h q ps s") (simp add: query_def)
next
  show "snd (query h q ps s) = snd (execSql h q ps s)"
    by (cases "execSql h q ps s") (simp add: query_def)
qed


theorem mutate_saves_query_does_not_witness:
  "db example_repo = Some (0, [7])
   \<and> exec example_host [7] ''INSERT'' (coerceParams []) = (Inr [], [7, 1])
   \<and> exec example_host [7] ''SELEC'' (coerceParams []) = (Inl (Error ''near SELEC: syntax error''), [7])
   \<and> (\<exists>s'. mutate example_host ''INSERT'' [] example_repo = (Inr [[]], s')
          \<and> files (app s') ''data/ir.sqlite'' = Some [7, 1] \<and> isSaving s')
   \<and> (\<exists>s'. mutate example_host ''SELEC'' [] example_repo = (Inr [[]], s')
          \<and> files (app s') ''data/ir.sqlite'' = Some [7] \<and> isSaving s')"
proof -
  have d: "db example_repo = Some (0, [7])" by (simp add: example_repo_def)
  have ins: "exec example_host [7] ''INSERT'' (coerceParams []) = (Inr [], [7, 1])"
    by (simp add: example_host_def)
  have bad: "exec example_host [7] ''SELEC'' (coerceParams [])
       = (Inl (Error ''near SELEC: syntax error''), [7])"
    by (simp add: example_host_def)
  have env: "(folder (app example_repo) \<or> createFolder example_host = None)
       \<and> writeBinary example_host = None"
    by (simp add: example_host_def example_repo_def)
  have r1: "fst (execSql example_host ''INSERT'' [] example_repo) = [[]]"
    by (simp add: execSql_def d ins)
  have r2: "fst (execSql example_host ''SELEC'' [] example_repo) = [[]]"
    by (simp add: execSql_def d bad)
  have p: "normalizePath example_host (dbFilePath example_repo) = ''data/ir.sqlite''"
    by (simp add: example_host_def example_repo_def)
  have ex: "export example_host [7, 1] = [7, 1]" "export example_host [7] = [7]"
    by (simp_all add: example_host_def)
  note m1 = mutate_saves_query_does_not[of example_host "''INSERT''" "[]" example_repo,
      THEN conjunct2, THEN conjunct1]
  note m2 = mutate_saves_query_does_not[of example_host "''SELEC''" "[]" example_repo,
      THEN conjunct2, THEN conjunct1]
  have "\<exists>s'. mutate example_host ''INSERT'' [] example_repo
            = (Inr (fst (execSql example_host ''INSERT'' [] example_repo)), s')
          \<and> files (app s') (normalizePath example_host (dbFilePath example_repo))
            = Some (export example_host [7, 1]) \<and> isSaving s'"
    using m1 d ins env by blast
  moreover have "\<exists>s'. mutate example_host ''SELEC'' [] example_repo
            = (Inr (fst (execSql example_host ''SELEC'' [] example_repo)), s')
          \<and> files (app s') (normalizePath example_host (dbFilePath example_repo))
            = Some (export example_host [7]) \<and> isSaving s'"
    using m2 d bad env by blast
  ultimately show ?thesis using d ins bad by (simp only: r1 r2 p ex simp_thms)
qed

text \<open>
  C10. When the engine returns several results, \<open>execSql\<close> formats all of them
  and \<open>query\<close> returns the formatted rows of the first only; when \<open>execSql\<close>
  returned \<open>[[]]\<close>, \<open>query\<close> returns the empty array; \<open>query\<close> never returns
  \<open>undefined\<close>.
\<close>

theorem query_returns_first_result:
  "(\<forall>i e r rs e'. db s = Some (i, e) \<and> exec h e q (coerceParams ps) = (Inr (r # rs), e') \<longrightarrow>
      fst (execSql h q ps s) = formatResult r # map formatResult rs
      \<and> fst (query h q ps s) = Some (formatResult r))
   \<and> (fst (execSql h q ps s) = [[]] \<longrightarrow> fst (query h q ps s) = Some [])
   \<and> fst (query h q ps s) \<noteq> None"
  by (auto simp: execSql_def query_def split: prod.splits sum.splits option.splits list.splits)


theorem query_returns_first_result_witness:
  "db example_repo = Some (0, [7])
   \<and> fst (execSql example_host ''SELECT 1 AS a; SELECT 2 AS b'' [] example_repo)
       = [formatResult \<lparr>columns = [''a''], values' = [[Number 1]]\<rparr>,
          formatResult \<lparr>columns = [''b''], values' = [[Number 2]]\<rparr>]
   \<and> fst (query example_host ''SELECT 1 AS a; SELECT 2 AS b'' [] example_repo)
       = Some (formatResult \<lparr>columns = [''a''], values' = [[Number 1]]\<rparr>)"
proof -
  have d: "db example_repo = Some (0, [7])" by (simp add: example_repo_def)
  have two: "exec example_host [7] ''SELECT 1 AS a; SELECT 2 AS b'' (coerceParams [])
       = (Inr [\<lparr>columns = [''a''], values' = [[Number 1]]\<rparr>,
               \<lparr>columns = [''b''], values' = [[Number 2]]\<rparr>], [7])"
    by (simp add: example_host_def)
  note main = query_returns_first_result[of example_repo example_host
      "''SELECT 1 AS a; SELECT 2 AS b''" "[]", THEN conjunct1]
  have "fst (execSql example_host ''SELECT 1 AS a; SELECT 2 AS b'' [] example_repo)
       = formatResult \<lparr>columns = [''a''], values' = [[Number 1]]\<rparr>
           # map formatResult [\<lparr>columns = [''b''], values' = [[Number 2]]\<rparr>]
     \<and> fst (query example_host ''SELECT 1 AS a; SELECT 2 AS b'' [] example_repo)
       = Some (formatResult \<lparr>columns = [''a''], values' = [[Number 1]]\<rparr>)"
    using main d two by blast
  then show ?thesis using d by simp
qed

text \<open>
  When the file is absent, \<open>start\<close> returns a repository whatever \<open>initDb\<close> did.
\<close>

lemma start_absent_returns:
  "\<not> dbExists h (new_SQLiteRepository h v p sch) \<Longrightarrow> \<exists>r. start h v p sch = Inr r"
  by (simp add: start_def split: prod.splits)

text \<open>
  C2. A load or initialization error is a failure of \<open>start\<close>. The code does
  this on one path only: with an existing file that the engine rejects, \<open>start\<close>
  throws; with no file and a runtime bootstrap that fails, \<open>start\<close> returns a
  registered repository whose \<open>db\<close> is undefined, and nothing is written.
\<close>

theorem start_swallows_failed_initDb:
  "(\<exists>r. start (example_host\<lparr>initSqlJs := Some (Error ''wasm'')\<rparr>)
          \<lparr>folder = False, files = Map.empty\<rparr> ''data/ir.sqlite'' ''CREATE'' = Inr r
        \<and> db r = None \<and> registered r \<and> files (app r) = Map.empty)
   \<and> start (example_host\<lparr>Database_from := (\<lambda>data. Inl (Error ''file is not a database''))\<rparr>)
          \<lparr>folder = True, files = [''data/ir.sqlite'' \<mapsto> [0]]\<rparr> ''data/ir.sqlite'' ''CREATE''
        = Inl (Error ''Db file found at data/ir.sqlite, but failed to load'')"
  by (simp add: start_def new_SQLiteRepository_def dbExists_def initDb.simps loadWasm_def
      loadDb_def reloadDb_def log_error_def example_host_def)

section \<open>INSERT\<close>

text \<open>
  C9. For K declared columns and N rows, the text of the built INSERT ends in N
  placeholder groups joined by commas, a group being one pair of parentheses around
  K placeholders; the parameter list has length N * K, and its element at
  \<open>i * K + j\<close> is the value of row \<open>i\<close> at column \<open>j\<close>.
\<close>

theorem insert_build_groups_and_params:
  "query_text (insert_build t cols rows) =
     ''INSERT INTO '' @ t @ '' ('' @ join '', '' cols @ '') VALUES ''
       @ join '', '' (replicate (length rows) (placeholder_group (length cols)))
   \<and> count_list (placeholder_group (length cols)) CHR ''?'' = length cols
   \<and> count_list (placeholder_group (length cols)) CHR ''('' = 1
   \<and> count_list (placeholder_group (length cols)) CHR '')'' = 1
   \<and> length (queryParams (insert_build t cols rows)) = length rows * length cols
   \<and> (\<forall>i<length rows. \<forall>j<length cols.
        queryParams (insert_build t cols rows) ! (i * length cols + j) = (rows ! i) (cols ! j))"
  by (simp add: insert_build_def map_const_replicate placeholder_group_def
      count_join_placeholders count_join_other length_flat_rows nth_flat_rows)

theorem insert_build_groups_and_params_witness:
  "query_text (insert_build ''snippet'' [''reference'', ''due'']
       [(\<lambda>c. if c = ''reference'' then String ''a'' else Number 1),
        (\<lambda>c. if c = ''reference'' then String ''b'' else Number 2)])
     = ''INSERT INTO snippet (reference, due) VALUES (?, ?), (?, ?)''
   \<and> queryParams (insert_build ''snippet'' [''reference'', ''due'']
       [(\<lambda>c. if c = ''reference'' then String ''a'' else Number 1),
        (\<lambda>c. if c = ''reference'' then String ''b'' else Number 2)]) ! (1 * 2 + 0)
     = String ''b''"
proof -
  let ?rows = "[(\<lambda>c. if c = ''reference'' then String ''a'' else Number 1),
        (\<lambda>c. if c = ''reference'' then String ''b'' else Number 2)]"
  let ?cols = "[''reference'', ''due'']"
  note main = insert_build_groups_and_params[of "''snippet''" ?cols ?rows]
  have i: "(1::nat) < length ?rows" and j: "(0::nat) < length ?cols" by simp_all
  have "queryParams (insert_build ''snippet'' ?cols ?rows) ! (1 * length ?cols + 0)
      = (?rows ! 1) (?cols ! 0)"
    using main i j by blast
  moreover have "query_text (insert_build ''snippet'' ?cols ?rows) =
     ''INSERT INTO '' @ ''snippet'' @ '' ('' @ join '', '' ?cols @ '') VALUES ''
       @ join '', '' (replicate (length ?rows) (placeholder_group (length ?cols)))"
    using main by blast
  ultimately show ?thesis by (simp add: placeholder_group_def numeral_2_eq_2)
qed

end
